theory Spec2Isabelle
  imports Main "HOL-Library.Word"
begin

section \<open>Data\<close>

text \<open>
  The program \<^verbatim>\<open>process_data.py\<close> reads one file, undoes one of four transforms and writes
  the result. Its data are byte strings, Python integers (unbounded, hence \<^typ>\<open>int\<close>) and
  text. A byte string is a list of 8-bit words; text is a \<^typ>\<open>string\<close>, whose characters
  stand for code points below 256.
\<close>

type_synonym byte = "8 word"
type_synonym bytes = "byte list"

text \<open>
  Everything the program does to the outside world is recorded, in order, as a list of
  events: a line handed to the \<^verbatim>\<open>logging\<close> module (which appends it to
  \<^verbatim>\<open>archextract.log\<close>) at level INFO or ERROR, a line printed on standard output or on
  standard error, the read of the input file, the call of \<^verbatim>\<open>os.makedirs\<close>, and the
  attempt to open the output file for writing and write the result into it.
\<close>

datatype event =
    LogInfo string
  | LogError string
  | Stdout string
  | Stderr string
  | ReadInput string
  | MakeDirs string
  | WriteOutput string bytes

text \<open>
  The library calls of the program are parameters of the model. A call either raises
  (\<open>Inl\<close> with the text of the exception, what \<^verbatim>\<open>str(e)\<close> gives) or returns (\<open>Inr\<close>).
  \<^item> \<open>urlsafe_b64decode\<close> is \<^verbatim>\<open>base64.urlsafe_b64decode\<close>;
  \<^item> \<open>zlib_decompress\<close> is \<^verbatim>\<open>zlib.decompress\<close>, \<open>lzma_decompress\<close> is \<^verbatim>\<open>lzma.decompress\<close>;
  \<^item> \<open>Fernet\<close> is the constructor \<^verbatim>\<open>Fernet(key)\<close>: \<open>Some e\<close> when it raises, \<open>None\<close> when it
    returns the cipher object for that key;
  \<^item> \<open>decrypt\<close> is \<^verbatim>\<open>f.decrypt(token)\<close> for the object built from the key given first;
  \<^item> \<open>decode\<close> is \<^verbatim>\<open>bytes.decode()\<close>, the UTF-8 decoding of a byte string.
\<close>

record library =
  urlsafe_b64decode :: "bytes \<Rightarrow> string + bytes"
  zlib_decompress :: "bytes \<Rightarrow> string + bytes"
  lzma_decompress :: "bytes \<Rightarrow> string + bytes"
  Fernet :: "bytes \<Rightarrow> string option"
  decrypt :: "bytes \<Rightarrow> bytes \<Rightarrow> string + bytes"
  decode :: "bytes \<Rightarrow> string + string"

text \<open>
  So are the answers of the file system: reading the input file, creating the directories
  of a non-empty path, and opening the output file and writing to it. The program asks
  each question at most once, so an answer is a function of the arguments alone.
\<close>

record environment =
  read_file :: "string \<Rightarrow> string + bytes"
  make_directories :: "string \<Rightarrow> string option"
  write_file :: "string \<Rightarrow> bytes \<Rightarrow> string option"

text \<open>
  How a run ends: \<^verbatim>\<open>sys.exit(n)\<close> or the end of the script (\<open>Exit 0\<close>), or an exception
  that nothing catches, named by its class or by the text the environment gave.
\<close>

datatype outcome = Exit int | Uncaught string


section \<open>Logging\<close>

text \<open>
  \<^verbatim>\<open>log_message\<close> reads the global \<^verbatim>\<open>verbose\<close>, which \<^verbatim>\<open>__main__\<close> sets to 1 before any call;
  here it is an argument.
\<close>

definition log_message :: "int \<Rightarrow> string \<Rightarrow> event list" where
  "log_message verbose msg =
     LogInfo msg # (if verbose \<ge> 1 then [Stdout msg] else [])"

definition log_error :: "string \<Rightarrow> event list" where
  "log_error msg = [LogError (''ERROR: '' @ msg), Stderr (''ERROR: '' @ msg)]"


section \<open>The transforms\<close>

definition validate_fernet_key :: "library \<Rightarrow> bytes \<Rightarrow> bool" where
  "validate_fernet_key L key =
     (case urlsafe_b64decode L key of
        Inl e \<Rightarrow> False
      | Inr decoded_key \<Rightarrow>
          if length decoded_key \<notin> set [16, 24, 32] then False else True)"

text \<open>
  Each transform returns \<^verbatim>\<open>None\<close> on failure, after one call of \<^verbatim>\<open>log_error\<close>, or the
  resulting bytes; the model pairs that result with the events of the call.
\<close>

definition process_none :: "bytes \<Rightarrow> int \<Rightarrow> bytes option \<times> event list" where
  "process_none data expected_size =
     (if int (length data) \<noteq> expected_size
      then (None, log_error ''Data size mismatch for no processing'')
      else (Some data, []))"

definition process_zlib :: "library \<Rightarrow> bytes \<Rightarrow> int \<Rightarrow> bytes option \<times> event list" where
  "process_zlib L data expected_size =
     (case zlib_decompress L data of
        Inl e \<Rightarrow> (None, log_error (''Zlib decompression failed: '' @ e))
      | Inr decompressed \<Rightarrow>
          if int (length decompressed) \<noteq> expected_size
          then (None, log_error ''Zlib decompressed size mismatch'')
          else (Some decompressed, []))"

definition process_lzma :: "library \<Rightarrow> bytes \<Rightarrow> int \<Rightarrow> bytes option \<times> event list" where
  "process_lzma L data expected_size =
     (case lzma_decompress L data of
        Inl e \<Rightarrow> (None, log_error (''LZMA decompression failed: '' @ e))
      | Inr decompressed \<Rightarrow>
          if int (length decompressed) \<noteq> expected_size
          then (None, log_error ''LZMA decompressed size mismatch'')
          else (Some decompressed, []))"

text \<open>
  In \<^verbatim>\<open>process_fernet\<close> the constructor, the decryption, the size check and the formatting
  of the success message (\<^verbatim>\<open>key.decode()\<close>) all sit in one \<^verbatim>\<open>try\<close> whose handler catches
  every \<^verbatim>\<open>Exception\<close>, so each of the three calls that can raise has its failing branch.
\<close>

definition process_fernet ::
  "int \<Rightarrow> library \<Rightarrow> bytes \<Rightarrow> int \<Rightarrow> bytes option \<times> event list" where
  "process_fernet verbose L data expected_size =
     (if length data < 44
      then (None, log_error ''Fernet data too short for key'')
      else
        let key = take 44 data in
        if \<not> validate_fernet_key L key
        then (None, log_error ''Invalid Fernet key'')
        else
          case Fernet L key of
            Some e \<Rightarrow> (None, log_error (''Fernet decryption failed: '' @ e))
          | None \<Rightarrow>
              (case decrypt L key (drop 44 data) of
                 Inl e \<Rightarrow> (None, log_error (''Fernet decryption failed: '' @ e))
               | Inr decrypted \<Rightarrow>
                   if int (length decrypted) \<noteq> expected_size
                   then (None, log_error ''Fernet decrypted size mismatch'')
                   else
                     (case decode L key of
                        Inl e \<Rightarrow> (None, log_error (''Fernet decryption failed: '' @ e))
                      | Inr text \<Rightarrow>
                          (Some decrypted,
                           log_message verbose (''Decrypted file with key: '' @ text)))))"


section \<open>The entry point\<close>

text \<open>
  \<^verbatim>\<open>int(s)\<close> on text: surrounding white space (tab to carriage return, space, and the
  two spaces NEL and NBSP above 127) is dropped, one sign is allowed, then come decimal
  digits, with single underscores allowed between two digits. Anything else raises
  \<^verbatim>\<open>ValueError\<close> (\<open>None\<close>). The interpreter's configurable cap on the number of digits is
  left out.
\<close>

definition is_space :: "char \<Rightarrow> bool" where
  "is_space c =
     (let n = (of_char c :: nat)
      in (9 \<le> n \<and> n \<le> 13) \<or> n = 32 \<or> n = 133 \<or> n = 160)"

definition strip :: "string \<Rightarrow> string" where
  "strip s = rev (dropWhile is_space (rev (dropWhile is_space s)))"

definition digit_val :: "char \<Rightarrow> nat option" where
  "digit_val c =
     (let n = (of_char c :: nat)
      in if 48 \<le> n \<and> n \<le> 57 then Some (n - 48) else None)"

fun py_digits :: "nat \<Rightarrow> string \<Rightarrow> nat option" where
  "py_digits acc [] = None"
| "py_digits acc (c # cs) =
     (case digit_val c of
        None \<Rightarrow> None
      | Some d \<Rightarrow>
          (case cs of
             [] \<Rightarrow> Some (10 * acc + d)
           | c' # cs' \<Rightarrow>
               if c' = CHR ''_'' then py_digits (10 * acc + d) cs'
               else py_digits (10 * acc + d) cs))"

definition py_int :: "string \<Rightarrow> int option" where
  "py_int s =
     (case strip s of
        [] \<Rightarrow> None
      | c # cs \<Rightarrow>
          if c = CHR ''-'' then map_option (\<lambda>n. - int n) (py_digits 0 cs)
          else if c = CHR ''+'' then map_option int (py_digits 0 cs)
          else map_option int (py_digits 0 (c # cs)))"

text \<open>
  \<^verbatim>\<open>os.path.dirname\<close> (POSIX): everything up to and including the last slash, with trailing
  slashes removed unless it consists of slashes only.
\<close>

definition dirname :: "string \<Rightarrow> string" where
  "dirname p =
     (let head = rev (dropWhile (\<lambda>c. c \<noteq> CHR ''/'') (rev p))
      in if head \<noteq> [] \<and> head \<noteq> replicate (length head) (CHR ''/'')
         then rev (dropWhile (\<lambda>c. c = CHR ''/'') (rev head))
         else head)"

text \<open>
  \<^verbatim>\<open>os.makedirs(name, exist_ok=True)\<close>: the empty path names no directory, there the call
  raises \<^verbatim>\<open>FileNotFoundError\<close> whatever the file system holds; for any other path the file
  system answers.
\<close>

definition makedirs :: "environment \<Rightarrow> string \<Rightarrow> string option" where
  "makedirs E name =
     (if name = [] then Some ''FileNotFoundError'' else make_directories E name)"

text \<open>
  Lines 103 to 114 of \<^verbatim>\<open>__main__\<close>, the dispatch on the method: \<open>Inr\<close> the result of the
  chosen transform, or \<open>Inl\<close> the code of \<^verbatim>\<open>sys.exit\<close> for a method that is none of the four.
\<close>

definition transform ::
  "int \<Rightarrow> library \<Rightarrow> int \<Rightarrow> bytes \<Rightarrow> int \<Rightarrow> (int + bytes option) \<times> event list" where
  "transform verbose L method data expected_size =
     (if method = 0 then
        (case process_none data expected_size of (result, t) \<Rightarrow> (Inr result, t))
      else if method = 1 then
        (case process_zlib L data expected_size of (result, t) \<Rightarrow> (Inr result, t))
      else if method = 2 then
        (case process_lzma L data expected_size of (result, t) \<Rightarrow> (Inr result, t))
      else if method = 3 then
        (case process_fernet verbose L data expected_size of (result, t) \<Rightarrow> (Inr result, t))
      else (Inl 1, log_error ''Unknown processing method''))"

text \<open>
  Lines 120 to 129: the directory of the output path is created outside any \<^verbatim>\<open>try\<close>, the
  file is opened and written inside one.
\<close>

definition write_result :: "environment \<Rightarrow> string \<Rightarrow> bytes \<Rightarrow> outcome \<times> event list" where
  "write_result E output_file result =
     (let dir = dirname output_file in
      case makedirs E dir of
        Some e \<Rightarrow> (Uncaught e, [MakeDirs dir])
      | None \<Rightarrow>
          (case write_file E output_file result of
             Some e \<Rightarrow>
               (Exit 1,
                [MakeDirs dir, WriteOutput output_file result]
                @ log_error (''Failed to write output file '' @ output_file @ '': '' @ e))
           | None \<Rightarrow> (Exit 0, [MakeDirs dir, WriteOutput output_file result])))"

definition usage :: string where
  "usage = ''Usage: python3 process_data.py <method> <input_file> <output_file> <expected_size>''"

definition main :: "environment \<Rightarrow> library \<Rightarrow> string list \<Rightarrow> outcome \<times> event list" where
  "main E L argv =
     (if length argv \<noteq> 5 then (Exit 1, [Stderr usage])
      else
        case py_int (argv ! 1) of
          None \<Rightarrow> (Uncaught ''ValueError'', [])
        | Some method \<Rightarrow>
            let input_file = argv ! 2; output_file = argv ! 3 in
            (case py_int (argv ! 4) of
               None \<Rightarrow> (Uncaught ''ValueError'', [])
             | Some expected_size \<Rightarrow>
                 let verbose = 1 in
                 (case read_file E input_file of
                    Inl e \<Rightarrow> (Uncaught e, [ReadInput input_file])
                  | Inr data \<Rightarrow>
                      (case transform verbose L method data expected_size of
                         (Inl code, t) \<Rightarrow> (Exit code, ReadInput input_file # t)
                       | (Inr None, t) \<Rightarrow> (Exit 1, ReadInput input_file # t)
                       | (Inr (Some result), t) \<Rightarrow>
                           (case write_result E output_file result of
                              (out, t') \<Rightarrow> (out, ReadInput input_file # t @ t'))))))"



section \<open>Observations on a run\<close>

text \<open>
  The events that touch the output path or its directory, the events that are INFO lines
  and those that are ERROR lines of the log, and the results of the dispatch that are not
  bytes to write.
\<close>

definition touches_output :: "event \<Rightarrow> bool" where
  "touches_output e =
     (case e of MakeDirs d \<Rightarrow> True | WriteOutput p b \<Rightarrow> True | _ \<Rightarrow> False)"

definition is_info :: "event \<Rightarrow> bool" where
  "is_info e = (case e of LogInfo m \<Rightarrow> True | _ \<Rightarrow> False)"

definition is_error :: "event \<Rightarrow> bool" where
  "is_error e = (case e of LogError m \<Rightarrow> True | _ \<Rightarrow> False)"

definition failed :: "int + bytes option \<Rightarrow> bool" where
  "failed r = (case r of Inr (Some out) \<Rightarrow> False | _ \<Rightarrow> True)"

text \<open>
  A library and a file system that give the same answer to every call, for running the
  program on concrete inputs of which the answers are known.
\<close>

definition fixed_library ::
  "(string + bytes) \<Rightarrow> (string + bytes) \<Rightarrow> (string + bytes) \<Rightarrow> string option
     \<Rightarrow> (string + bytes) \<Rightarrow> (string + string) \<Rightarrow> library" where
  "fixed_library b z l f d t =
     \<lparr>urlsafe_b64decode = (\<lambda>_. b), zlib_decompress = (\<lambda>_. z), lzma_decompress = (\<lambda>_. l),
      Fernet = (\<lambda>_. f), decrypt = (\<lambda>_ _. d), decode = (\<lambda>_. t)\<rparr>"

definition fixed_environment ::
  "(string + bytes) \<Rightarrow> string option \<Rightarrow> string option \<Rightarrow> environment" where
  "fixed_environment r m w =
     \<lparr>read_file = (\<lambda>_. r), make_directories = (\<lambda>_. m), write_file = (\<lambda>_ _. w)\<rparr>"

text \<open>
  A library in which every call raises, for the runs that call none; the bytes of
  \<^verbatim>\<open>b"hi"\<close> and of \<^verbatim>\<open>b"hello"\<close>; and the 44 bytes \<^verbatim>\<open>b"A" * 43 + b"="\<close>, which are base64 for
  32 zero bytes.
\<close>

definition no_library :: library where
  "no_library =
     fixed_library (Inl ''unused'') (Inl ''unused'') (Inl ''unused'') (Some ''unused'')
       (Inl ''unused'') (Inl ''unused'')"

definition hi :: bytes where
  "hi = [104, 105]"

definition hello :: bytes where
  "hello = [104, 101, 108, 108, 111]"

text \<open>
  What \<^verbatim>\<open>zlib.compress(b"hi")\<close> and \<^verbatim>\<open>lzma.compress(b"hi")\<close> return.
\<close>

definition zlib_hi :: bytes where
  "zlib_hi = [120, 156, 203, 200, 4, 0, 1, 59, 0, 210]"

definition xz_hi :: bytes where
  "xz_hi =
     [253, 55, 122, 88, 90, 0, 0, 4, 230, 214, 180, 70, 2, 0, 33, 1, 22, 0, 0, 0,
      116, 47, 229, 163, 1, 0, 1, 104, 105, 0, 0, 0, 254, 169, 56, 17, 188, 202, 165, 72,
      0, 1, 26, 2, 220, 46, 165, 126, 31, 182, 243, 125, 1, 0, 0, 0, 0, 4, 89, 90]"

definition key_A :: bytes where
  "key_A = replicate 43 65 @ [61]"

definition text_A :: string where
  "text_A = replicate 43 (CHR ''A'') @ ''=''"


section \<open>The pass-through transform\<close>

text \<open>
  C3. With method NONE the data come back unchanged, and nothing is logged, when the
  expected size is the length of the data; for every other expected size the transform
  fails, having logged the size mismatch of the pass-through branch.
\<close>

theorem process_none_identity:
  "transform verbose L 0 data (int (length data)) = (Inr (Some data), [])
   \<and> (n \<noteq> int (length data) \<longrightarrow>
        transform verbose L 0 data n
          = (Inr None, log_error ''Data size mismatch for no processing''))"
  by (simp add: transform_def process_none_def)

theorem process_none_identity_witness:
  "transform 1 no_library 0 hi (int (length hi)) = (Inr (Some hi), [])
   \<and> 5 \<noteq> int (length hi)
   \<and> transform 1 no_library 0 hi 5
        = (Inr None, log_error ''Data size mismatch for no processing'')"
  using process_none_identity [of 1 no_library hi 5] by (simp add: hi_def)


section \<open>What the events of a call can be\<close>

lemma log_error_quiet:
  "filter touches_output (log_error m) = []" "filter is_info (log_error m) = []"
  by (simp_all add: log_error_def touches_output_def is_info_def)

lemma log_message_quiet: "filter touches_output (log_message v m) = []"
  by (simp add: log_message_def touches_output_def)

lemma log_message_info: "filter is_info (log_message v m) = [LogInfo m]"
  by (simp add: log_message_def is_info_def)

lemma process_none_quiet: "filter touches_output (snd (process_none d n)) = []"
  by (simp add: process_none_def log_error_quiet)

lemma process_zlib_quiet: "filter touches_output (snd (process_zlib L d n)) = []"
  by (simp add: process_zlib_def log_error_quiet split: sum.split)

lemma process_lzma_quiet: "filter touches_output (snd (process_lzma L d n)) = []"
  by (simp add: process_lzma_def log_error_quiet split: sum.split)

lemma process_fernet_quiet: "filter touches_output (snd (process_fernet v L d n)) = []"
  by (simp add: process_fernet_def Let_def log_error_quiet log_message_quiet
      split: sum.split option.split)


section \<open>The size check of each transform\<close>

lemma process_none_sized: "process_none d n = (Some out, t) \<Longrightarrow> int (length out) = n"
  by (simp add: process_none_def split: if_splits)

lemma process_zlib_sized: "process_zlib L d n = (Some out, t) \<Longrightarrow> int (length out) = n"
  by (simp add: process_zlib_def split: sum.splits if_splits)

lemma process_lzma_sized: "process_lzma L d n = (Some out, t) \<Longrightarrow> int (length out) = n"
  by (simp add: process_lzma_def split: sum.splits if_splits)

lemma process_fernet_sized:
  "process_fernet v L d n = (Some out, t) \<Longrightarrow> int (length out) = n"
  by (simp add: process_fernet_def Let_def split: sum.splits option.splits if_splits)

lemma transform_sized:
  "transform v L m d n = (Inr (Some out), t) \<Longrightarrow> int (length out) = n"
  unfolding transform_def
  by (auto split: if_splits prod.splits
      dest: process_none_sized process_zlib_sized process_lzma_sized process_fernet_sized)

section \<open>The expected size as the acceptance test\<close>

text \<open>
  C1. Whatever the method, bytes that the dispatch returns have exactly the expected
  length. And where the transform proper has produced bytes of another length (the data
  themselves for NONE, the decompressed bytes for ZLIB and LZMA, the decrypted bytes for
  SYMMETRIC), the dispatch returns no bytes and has logged the size mismatch of that
  branch, which is how the program reports SizeMismatch.
\<close>

theorem size_oracle:
  "(transform verbose L method data expected_size = (Inr (Some out), t)
      \<longrightarrow> int (length out) = expected_size)
   \<and> (int (length data) \<noteq> expected_size
      \<longrightarrow> transform verbose L 0 data expected_size
            = (Inr None, log_error ''Data size mismatch for no processing''))
   \<and> (zlib_decompress L data = Inr d \<and> int (length d) \<noteq> expected_size
      \<longrightarrow> transform verbose L 1 data expected_size
            = (Inr None, log_error ''Zlib decompressed size mismatch''))
   \<and> (lzma_decompress L data = Inr d \<and> int (length d) \<noteq> expected_size
      \<longrightarrow> transform verbose L 2 data expected_size
            = (Inr None, log_error ''LZMA decompressed size mismatch''))
   \<and> (44 \<le> length data \<and> validate_fernet_key L (take 44 data)
        \<and> Fernet L (take 44 data) = None
        \<and> decrypt L (take 44 data) (drop 44 data) = Inr d
        \<and> int (length d) \<noteq> expected_size
      \<longrightarrow> transform verbose L 3 data expected_size
            = (Inr None, log_error ''Fernet decrypted size mismatch''))"
proof (intro conjI impI)
  assume "transform verbose L method data expected_size = (Inr (Some out), t)"
  then show "int (length out) = expected_size" by (rule transform_sized)
next
  assume "int (length data) \<noteq> expected_size"
  then show "transform verbose L 0 data expected_size
      = (Inr None, log_error ''Data size mismatch for no processing'')"
    by (simp add: transform_def process_none_def)
next
  assume "zlib_decompress L data = Inr d \<and> int (length d) \<noteq> expected_size"
  then show "transform verbose L 1 data expected_size
      = (Inr None, log_error ''Zlib decompressed size mismatch'')"
    by (simp add: transform_def process_zlib_def)
next
  assume "lzma_decompress L data = Inr d \<and> int (length d) \<noteq> expected_size"
  then show "transform verbose L 2 data expected_size
      = (Inr None, log_error ''LZMA decompressed size mismatch'')"
    by (simp add: transform_def process_lzma_def)
next
  assume "44 \<le> length data \<and> validate_fernet_key L (take 44 data)
        \<and> Fernet L (take 44 data) = None
        \<and> decrypt L (take 44 data) (drop 44 data) = Inr d
        \<and> int (length d) \<noteq> expected_size"
  then show "transform verbose L 3 data expected_size
      = (Inr None, log_error ''Fernet decrypted size mismatch'')"
    by (simp add: transform_def process_fernet_def Let_def)
qed

theorem size_oracle_witness:
  "transform 1 (fixed_library (Inl []) (Inr hi) (Inl []) None (Inl []) (Inl [])) 1 hello 2
      = (Inr (Some hi), [])
   \<and> int (length hi) = 2
   \<and> int (length hello) \<noteq> 4
   \<and> transform 1 no_library 0 hello 4
      = (Inr None, log_error ''Data size mismatch for no processing'')
   \<and> transform 1 (fixed_library (Inl []) (Inr hi) (Inl []) None (Inl []) (Inl [])) 1 hello 3
      = (Inr None, log_error ''Zlib decompressed size mismatch'')
   \<and> transform 1 (fixed_library (Inl []) (Inl []) (Inr hi) None (Inl []) (Inl [])) 2 hello 3
      = (Inr None, log_error ''LZMA decompressed size mismatch'')
   \<and> transform 1
        (fixed_library (Inr (replicate 32 0)) (Inl []) (Inl []) None (Inr hi) (Inr text_A))
        3 (key_A @ hello) 3
      = (Inr None, log_error ''Fernet decrypted size mismatch'')"
proof -
  let ?Z = "fixed_library (Inl []) (Inr hi) (Inl []) None (Inl []) (Inl [])"
  let ?X = "fixed_library (Inl []) (Inl []) (Inr hi) None (Inl []) (Inl [])"
  let ?F = "fixed_library (Inr (replicate 32 0)) (Inl []) (Inl []) None (Inr hi) (Inr text_A)"
  have run: "transform 1 ?Z 1 hello 2 = (Inr (Some hi), [])"
    by (simp add: transform_def process_zlib_def fixed_library_def hi_def)
  have valid: "validate_fernet_key ?F (take 44 (key_A @ hello))"
    by (simp add: validate_fernet_key_def fixed_library_def)
  have len: "44 \<le> length (key_A @ hello)"
    by (simp add: key_A_def)
  note a = size_oracle [of 1 ?Z 1 hello 2 hi "[]" hi]
  note b = size_oracle [of 1 no_library 0 hello 4 hi "[]" hi]
  note c = size_oracle [of 1 ?Z 0 hello 3 hi "[]" hi]
  note d = size_oracle [of 1 ?X 0 hello 3 hi "[]" hi]
  note e = size_oracle [of 1 ?F 0 "key_A @ hello" 3 hi "[]" hi]
  have 1: "int (length hi) = 2" using a run by blast
  have 2: "int (length hello) \<noteq> 4" by (simp add: hello_def)
  have 3: "transform 1 no_library 0 hello 4
      = (Inr None, log_error ''Data size mismatch for no processing'')"
    using b 2 by blast
  have 4: "transform 1 ?Z 1 hello 3 = (Inr None, log_error ''Zlib decompressed size mismatch'')"
    using c by (simp add: fixed_library_def hi_def)
  have 5: "transform 1 ?X 2 hello 3 = (Inr None, log_error ''LZMA decompressed size mismatch'')"
    using d by (simp add: fixed_library_def hi_def)
  have 6: "transform 1 ?F 3 (key_A @ hello) 3
      = (Inr None, log_error ''Fernet decrypted size mismatch'')"
    using e valid len by (simp add: fixed_library_def hi_def)
  show ?thesis using run 1 2 3 4 5 6 by blast
qed

section \<open>The order of the failures of the symmetric branch\<close>

text \<open>
  C2. For SYMMETRIC the failures are decided in this order. Fewer than 44 bytes: the
  error is the one for truncated input, whatever the library would answer. Otherwise, a
  key prefix that fails validation: the error is the one for an invalid key, and neither
  the constructor nor the decryption has any part in the result, which is the same for
  every replacement of the two. Otherwise, with the cipher object built, a decryption
  that raises: the error is the decryption error carrying the text of the exception.
  Otherwise, decrypted bytes of another length than expected: the size mismatch.
\<close>

theorem process_fernet_failure_order:
  "(length data < 44
      \<longrightarrow> process_fernet verbose L data expected_size
            = (None, log_error ''Fernet data too short for key''))
   \<and> (44 \<le> length data \<and> \<not> validate_fernet_key L (take 44 data)
      \<longrightarrow> process_fernet verbose (L\<lparr>Fernet := F, decrypt := D\<rparr>) data expected_size
            = (None, log_error ''Invalid Fernet key''))
   \<and> (44 \<le> length data \<and> validate_fernet_key L (take 44 data)
        \<and> Fernet L (take 44 data) = None
        \<and> decrypt L (take 44 data) (drop 44 data) = Inl e
      \<longrightarrow> process_fernet verbose L data expected_size
            = (None, log_error (''Fernet decryption failed: '' @ e)))
   \<and> (44 \<le> length data \<and> validate_fernet_key L (take 44 data)
        \<and> Fernet L (take 44 data) = None
        \<and> decrypt L (take 44 data) (drop 44 data) = Inr d
        \<and> int (length d) \<noteq> expected_size
      \<longrightarrow> process_fernet verbose L data expected_size
            = (None, log_error ''Fernet decrypted size mismatch''))"
proof (intro conjI impI)
  assume "length data < 44"
  then show "process_fernet verbose L data expected_size
      = (None, log_error ''Fernet data too short for key'')"
    by (simp add: process_fernet_def)
next
  assume a: "44 \<le> length data \<and> \<not> validate_fernet_key L (take 44 data)"
  have "validate_fernet_key (L\<lparr>Fernet := F, decrypt := D\<rparr>) (take 44 data)
      = validate_fernet_key L (take 44 data)"
    by (simp add: validate_fernet_key_def)
  with a show "process_fernet verbose (L\<lparr>Fernet := F, decrypt := D\<rparr>) data expected_size
      = (None, log_error ''Invalid Fernet key'')"
    by (simp add: process_fernet_def Let_def)
next
  assume "44 \<le> length data \<and> validate_fernet_key L (take 44 data)
        \<and> Fernet L (take 44 data) = None
        \<and> decrypt L (take 44 data) (drop 44 data) = Inl e"
  then show "process_fernet verbose L data expected_size
      = (None, log_error (''Fernet decryption failed: '' @ e))"
    by (simp add: process_fernet_def Let_def)
next
  assume "44 \<le> length data \<and> validate_fernet_key L (take 44 data)
        \<and> Fernet L (take 44 data) = None
        \<and> decrypt L (take 44 data) (drop 44 data) = Inr d
        \<and> int (length d) \<noteq> expected_size"
  then show "process_fernet verbose L data expected_size
      = (None, log_error ''Fernet decrypted size mismatch'')"
    by (simp add: process_fernet_def Let_def)
qed

theorem process_fernet_failure_order_witness:
  "process_fernet 1 no_library hello 5 = (None, log_error ''Fernet data too short for key'')
   \<and> process_fernet 1
        (fixed_library (Inr hi) (Inl []) (Inl []) None (Inr hello) (Inr text_A))
        (key_A @ hello) 5
      = (None, log_error ''Invalid Fernet key'')
   \<and> process_fernet 1
        (fixed_library (Inr (replicate 32 0)) (Inl []) (Inl []) None (Inl ''bad token'')
           (Inr text_A))
        (key_A @ hello) 5
      = (None, log_error ''Fernet decryption failed: bad token'')
   \<and> process_fernet 1
        (fixed_library (Inr (replicate 32 0)) (Inl []) (Inl []) None (Inr hi) (Inr text_A))
        (key_A @ hello) 5
      = (None, log_error ''Fernet decrypted size mismatch'')"
proof -
  let ?K = "fixed_library (Inr hi) (Inl []) (Inl []) None (Inr hello) (Inr text_A)"
  let ?T = "fixed_library (Inr (replicate 32 0)) (Inl []) (Inl []) None (Inl ''bad token'')
      (Inr text_A)"
  let ?S = "fixed_library (Inr (replicate 32 0)) (Inl []) (Inl []) None (Inr hi) (Inr text_A)"
  have len: "44 \<le> length (key_A @ hello)" by (simp add: key_A_def)
  have short: "length hello < 44" by (simp add: hello_def)
  have same: "?K\<lparr>Fernet := Fernet ?K, decrypt := decrypt ?K\<rparr> = ?K" by simp
  have invalid: "\<not> validate_fernet_key ?K (take 44 (key_A @ hello))"
    by (simp add: validate_fernet_key_def fixed_library_def hi_def)
  have validT: "validate_fernet_key ?T (take 44 (key_A @ hello))"
    by (simp add: validate_fernet_key_def fixed_library_def)
  have validS: "validate_fernet_key ?S (take 44 (key_A @ hello))"
    by (simp add: validate_fernet_key_def fixed_library_def)
  have 1: "process_fernet 1 no_library hello 5
      = (None, log_error ''Fernet data too short for key'')"
    using process_fernet_failure_order
      [where data = hello and verbose = 1 and L = no_library and expected_size = 5] short
    by blast
  have 2: "process_fernet 1 ?K (key_A @ hello) 5 = (None, log_error ''Invalid Fernet key'')"
    using process_fernet_failure_order
      [where data = "key_A @ hello" and verbose = 1 and L = ?K and expected_size = 5
        and F = "Fernet ?K" and D = "decrypt ?K"] len invalid same
    by simp
  have 3: "process_fernet 1 ?T (key_A @ hello) 5
      = (None, log_error ''Fernet decryption failed: bad token'')"
    using process_fernet_failure_order
      [where data = "key_A @ hello" and verbose = 1 and L = ?T and expected_size = 5
        and e = "''bad token''"] len validT
    by (simp add: fixed_library_def)
  have 4: "process_fernet 1 ?S (key_A @ hello) 5
      = (None, log_error ''Fernet decrypted size mismatch'')"
    using process_fernet_failure_order
      [where data = "key_A @ hello" and verbose = 1 and L = ?S and expected_size = 5
        and d = hi] len validS
    by (simp add: fixed_library_def hi_def)
  show ?thesis using 1 2 3 4 by blast
qed

text \<open>
  Between the key check and the decryption sits the constructor: a key that passes the
  check and that the constructor refuses ends in the same handler as a failed decryption,
  and no decryption takes place.
\<close>

lemma process_fernet_constructor_raises:
  "44 \<le> length data \<Longrightarrow> validate_fernet_key L (take 44 data)
   \<Longrightarrow> Fernet L (take 44 data) = Some e
   \<Longrightarrow> process_fernet verbose (L\<lparr>decrypt := D\<rparr>) data expected_size
        = (None, log_error (''Fernet decryption failed: '' @ e))"
  by (simp add: process_fernet_def Let_def validate_fernet_key_def)


section \<open>Key validation\<close>

text \<open>
  C6. A key is valid exactly when it decodes, as URL-safe base64, to 16, 24 or 32 bytes:
  a 44-byte input with such a decoding is accepted; an input that decodes to any other
  length is rejected, and so is one whose decoding raises.
\<close>

theorem validate_fernet_key_by_length:
  "(length key = 44 \<and> urlsafe_b64decode L key = Inr decoded
        \<and> length decoded \<in> {16, 24, 32}
      \<longrightarrow> validate_fernet_key L key)
   \<and> (urlsafe_b64decode L key = Inr decoded \<and> length decoded \<notin> {16, 24, 32}
      \<longrightarrow> \<not> validate_fernet_key L key)
   \<and> (urlsafe_b64decode L key = Inl e \<longrightarrow> \<not> validate_fernet_key L key)"
  by (simp add: validate_fernet_key_def)

theorem validate_fernet_key_by_length_witness:
  "length key_A = 44
   \<and> validate_fernet_key
        (fixed_library (Inr (replicate 32 0)) (Inl []) (Inl []) None (Inl []) (Inl [])) key_A
   \<and> validate_fernet_key
        (fixed_library (Inr (replicate 16 0)) (Inl []) (Inl []) None (Inl []) (Inl [])) key_A
   \<and> \<not> validate_fernet_key
        (fixed_library (Inr (replicate 31 0)) (Inl []) (Inl []) None (Inl []) (Inl [])) key_A
   \<and> \<not> validate_fernet_key
        (fixed_library (Inl ''Incorrect padding'') (Inl []) (Inl []) None (Inl []) (Inl []))
        hello"
proof -
  let ?A = "fixed_library (Inr (replicate 32 0)) (Inl []) (Inl []) None (Inl []) (Inl [])"
  let ?B = "fixed_library (Inr (replicate 16 0)) (Inl []) (Inl []) None (Inl []) (Inl [])"
  let ?C = "fixed_library (Inr (replicate 31 0)) (Inl []) (Inl []) None (Inl []) (Inl [])"
  let ?D = "fixed_library (Inl ''Incorrect padding'') (Inl []) (Inl []) None (Inl []) (Inl [])"
  have len: "length key_A = 44" by (simp add: key_A_def)
  have 1: "validate_fernet_key ?A key_A"
    using validate_fernet_key_by_length
      [where key = key_A and L = ?A and decoded = "replicate 32 0"] len
    by (simp add: fixed_library_def)
  have 2: "validate_fernet_key ?B key_A"
    using validate_fernet_key_by_length
      [where key = key_A and L = ?B and decoded = "replicate 16 0"] len
    by (simp add: fixed_library_def)
  have 3: "\<not> validate_fernet_key ?C key_A"
    using validate_fernet_key_by_length
      [where key = key_A and L = ?C and decoded = "replicate 31 0"]
    by (simp add: fixed_library_def)
  have 4: "\<not> validate_fernet_key ?D hello"
    using validate_fernet_key_by_length
      [where key = hello and L = ?D and e = "''Incorrect padding''"]
    by (simp add: fixed_library_def)
  show ?thesis using len 1 2 3 4 by blast
qed


section \<open>A meth that is none of the four\<close>

text \<open>
  C7. For a method outside 0, 1, 2, 3 the dispatch runs no transform: whatever the
  library, the data and the expected size, it logs the error "Unknown processing method"
  and leaves with exit code 1. So does the program, once both numbers are parsed and the
  input is read: it ends with code 1, and apart from the read that error is all it did.
\<close>

theorem unknown_method:
  "meth \<notin> {0, 1, 2, 3}
   \<longrightarrow> transform verbose L meth data expected_size
         = (Inl 1, log_error ''Unknown processing method'')
       \<and> (length argv = 5 \<and> py_int (argv ! 1) = Some meth
            \<and> py_int (argv ! 4) = Some expected_size
            \<and> read_file E (argv ! 2) = Inr data
          \<longrightarrow> main E L argv
                = (Exit 1, ReadInput (argv ! 2) # log_error ''Unknown processing method''))"
  by (simp add: transform_def main_def Let_def)

theorem unknown_method_witness:
  "(99::int) \<notin> {0, 1, 2, 3}
   \<and> transform 1 no_library 99 [] 0 = (Inl 1, log_error ''Unknown processing method'')
   \<and> main (fixed_environment (Inr []) None None) no_library
        [''process_data.py'', ''99'', ''in'', ''out'', ''0'']
      = (Exit 1, ReadInput ''in'' # log_error ''Unknown processing method'')"
proof -
  let ?E = "fixed_environment (Inr []) None None"
  let ?argv = "[''process_data.py'', ''99'', ''in'', ''out'', ''0'']"
  have m: "py_int (?argv ! 1) = Some 99"
    by (simp add: py_int_def strip_def is_space_def digit_val_def)
  have n: "py_int (?argv ! 4) = Some 0"
    by (simp add: py_int_def strip_def is_space_def digit_val_def)
  have r: "read_file ?E (?argv ! 2) = Inr []" by (simp add: fixed_environment_def)
  have out: "(99::int) \<notin> {0, 1, 2, 3}" by simp
  have l: "length ?argv = 5" by simp
  note u = unknown_method
    [where meth = 99 and verbose = 1 and L = no_library and data = "[]"
       and expected_size = 0 and argv = ?argv and E = ?E]
  have 1: "transform 1 no_library 99 [] 0 = (Inl 1, log_error ''Unknown processing method'')"
    using u out by blast
  have 2: "main ?E no_library ?argv
      = (Exit 1, ReadInput (?argv ! 2) # log_error ''Unknown processing method'')"
    using u out l m n r by blast
  show ?thesis using out 1 2 by simp
qed

section \<open>The log line of a successful decryption\<close>

text \<open>
  C9. A SYMMETRIC call that succeeds had a valid key, a decryption that returned bytes of
  the expected length, and a key that decodes as text; its events are those of one call
  of \<^verbatim>\<open>log_message\<close> with that text, so exactly one INFO line, which holds the key. A
  SYMMETRIC call that fails has no INFO line among its events.
\<close>

theorem process_fernet_key_logged:
  "(process_fernet verbose L data expected_size = (Some out, t)
      \<longrightarrow> 44 \<le> length data \<and> validate_fernet_key L (take 44 data)
          \<and> decrypt L (take 44 data) (drop 44 data) = Inr out
          \<and> int (length out) = expected_size
          \<and> (\<exists>text. decode L (take 44 data) = Inr text
                \<and> t = log_message verbose (''Decrypted file with key: '' @ text)
                \<and> filter is_info t = [LogInfo (''Decrypted file with key: '' @ text)]))
   \<and> (process_fernet verbose L data expected_size = (None, t) \<longrightarrow> filter is_info t = [])"
proof (intro conjI impI)
  assume s: "process_fernet verbose L data expected_size = (Some out, t)"
  from s show "44 \<le> length data"
    by (simp add: process_fernet_def split: if_splits)
  from s show "validate_fernet_key L (take 44 data)"
    by (simp add: process_fernet_def Let_def split: if_splits)
  from s show "decrypt L (take 44 data) (drop 44 data) = Inr out"
    by (simp add: process_fernet_def Let_def split: if_splits option.splits sum.splits)
  from s show "int (length out) = expected_size" by (rule process_fernet_sized)
  from s show "\<exists>text. decode L (take 44 data) = Inr text
      \<and> t = log_message verbose (''Decrypted file with key: '' @ text)
      \<and> filter is_info t = [LogInfo (''Decrypted file with key: '' @ text)]"
    by (auto simp: process_fernet_def Let_def log_message_info
        split: if_splits option.splits sum.splits)
next
  assume "process_fernet verbose L data expected_size = (None, t)"
  then show "filter is_info t = []"
    by (auto simp: process_fernet_def Let_def log_error_quiet
        split: if_splits option.splits sum.splits)
qed

theorem process_fernet_key_logged_witness:
  "process_fernet 1
      (fixed_library (Inr (replicate 32 0)) (Inl []) (Inl []) None (Inr hi) (Inr text_A))
      (key_A @ hello) 2
     = (Some hi, [LogInfo (''Decrypted file with key: '' @ text_A),
                  Stdout (''Decrypted file with key: '' @ text_A)])
   \<and> filter is_info [LogInfo (''Decrypted file with key: '' @ text_A),
                     Stdout (''Decrypted file with key: '' @ text_A)]
       = [LogInfo (''Decrypted file with key: '' @ text_A)]
   \<and> process_fernet 1 no_library hello 5
       = (None, log_error ''Fernet data too short for key'')
   \<and> filter is_info (log_error ''Fernet data too short for key'') = []"
proof -
  let ?S = "fixed_library (Inr (replicate 32 0)) (Inl []) (Inl []) None (Inr hi) (Inr text_A)"
  let ?t = "[LogInfo (''Decrypted file with key: '' @ text_A),
             Stdout (''Decrypted file with key: '' @ text_A)]"
  have valid: "validate_fernet_key ?S (take 44 (key_A @ hello))"
    by (simp add: validate_fernet_key_def fixed_library_def)
  have len: "\<not> length (key_A @ hello) < 44" by (simp add: key_A_def)
  have run: "process_fernet 1 ?S (key_A @ hello) 2 = (Some hi, ?t)"
    using valid len
    by (simp add: process_fernet_def Let_def fixed_library_def hi_def log_message_def)
  have dec: "decode ?S (take 44 (key_A @ hello)) = Inr text_A"
    by (simp add: fixed_library_def)
  have "\<exists>text. decode ?S (take 44 (key_A @ hello)) = Inr text
      \<and> ?t = log_message 1 (''Decrypted file with key: '' @ text)
      \<and> filter is_info ?t = [LogInfo (''Decrypted file with key: '' @ text)]"
    using process_fernet_key_logged
      [where verbose = 1 and L = ?S and data = "key_A @ hello" and expected_size = 2
         and out = hi and t = ?t] run
    by blast
  then obtain k where "decode ?S (take 44 (key_A @ hello)) = Inr k"
    and "filter is_info ?t = [LogInfo (''Decrypted file with key: '' @ k)]"
    by blast
  with dec have 1: "filter is_info ?t = [LogInfo (''Decrypted file with key: '' @ text_A)]"
    by simp
  have fail: "process_fernet 1 no_library hello 5
      = (None, log_error ''Fernet data too short for key'')"
    by (simp add: process_fernet_def hello_def)
  have 2: "filter is_info (log_error ''Fernet data too short for key'') = []"
    using process_fernet_key_logged
      [where verbose = 1 and L = no_library and data = hello and expected_size = 5
         and t = "log_error ''Fernet data too short for key''"] fail
    by blast
  show ?thesis using run 1 fail 2 by blast
qed


section \<open>Round trips through the decompressors\<close>

text \<open>
  C4. Let \<open>compress\<close> be a compressor that \<^verbatim>\<open>zlib.decompress\<close> undoes, and \<open>lzma_compress\<close>
  one that \<^verbatim>\<open>lzma.decompress\<close> undoes, at the payload \<open>p\<close>. Then the dispatch with meth
  ZLIB on \<open>compress p\<close>, and with meth LZMA on \<open>lzma_compress p\<close>, with the length of
  \<open>p\<close> as expected size, returns \<open>p\<close> and logs nothing. That the library's compressor and
  decompressor are inverse is the library's contract, which the program relies on.
\<close>

theorem decompress_round_trip:
  "(zlib_decompress L (compress p) = Inr p
      \<longrightarrow> transform verbose L 1 (compress p) (int (length p)) = (Inr (Some p), []))
   \<and> (lzma_decompress L (lzma_compress p) = Inr p
      \<longrightarrow> transform verbose L 2 (lzma_compress p) (int (length p)) = (Inr (Some p), []))"
  by (simp add: transform_def process_zlib_def process_lzma_def)

theorem decompress_round_trip_witness:
  "transform 1 (fixed_library (Inl []) (Inr hi) (Inr hi) None (Inl []) (Inl [])) 1
       zlib_hi (int (length hi))
     = (Inr (Some hi), [])
   \<and> transform 1 (fixed_library (Inl []) (Inr hi) (Inr hi) None (Inl []) (Inl [])) 2
       xz_hi (int (length hi))
     = (Inr (Some hi), [])"
proof -
  let ?L = "fixed_library (Inl []) (Inr hi) (Inr hi) None (Inl []) (Inl [])"
  have z: "zlib_decompress ?L zlib_hi = Inr hi" by (simp add: fixed_library_def)
  have x: "lzma_decompress ?L xz_hi = Inr hi" by (simp add: fixed_library_def)
  show ?thesis
    using decompress_round_trip
      [where L = ?L and compress = "\<lambda>p. zlib_hi" and lzma_compress = "\<lambda>p. xz_hi"
         and p = hi and verbose = 1] z x
    by blast
qed


section \<open>Runs of the whole program\<close>

lemma snd_tagged: "snd (case p of (result, t) \<Rightarrow> (Inr result, t)) = snd p"
  by (cases p) simp

lemma fst_tagged: "fst (case p of (result, t) \<Rightarrow> (Inr result, t)) = Inr (fst p)"
  by (cases p) simp

lemma transform_quiet: "filter touches_output (snd (transform v L m d n)) = []"
  by (simp add: transform_def snd_tagged log_error_quiet process_none_quiet
      process_zlib_quiet process_lzma_quiet process_fernet_quiet)

lemma transform_exit_code: "fst (transform v L m d n) = Inl c \<Longrightarrow> c = 1"
  by (simp add: transform_def fst_tagged split: if_splits)

lemma process_none_negative: "n < 0 \<Longrightarrow> fst (process_none d n) = None"
  by (simp add: process_none_def)

lemma process_zlib_negative: "n < 0 \<Longrightarrow> fst (process_zlib L d n) = None"
  by (simp add: process_zlib_def split: sum.split)

lemma process_lzma_negative: "n < 0 \<Longrightarrow> fst (process_lzma L d n) = None"
  by (simp add: process_lzma_def split: sum.split)

lemma process_fernet_negative: "n < 0 \<Longrightarrow> fst (process_fernet v L d n) = None"
  by (simp add: process_fernet_def Let_def split: sum.split option.split)

lemma transform_negative: "n < 0 \<Longrightarrow> failed (fst (transform v L m d n))"
  by (simp add: transform_def fst_tagged failed_def process_none_negative
      process_zlib_negative process_lzma_negative process_fernet_negative)

text \<open>
  A run that gets as far as the dispatch: the two numbers are parsed and the input is
  read. If the dispatch gives no bytes the run ends there with code 1; if it gives bytes
  the run goes on with the writing of the result.
\<close>

lemma main_failed:
  assumes "length argv = 5" and "py_int (argv ! 1) = Some meth"
    and "py_int (argv ! 4) = Some expected_size"
    and "read_file E (argv ! 2) = Inr data"
    and "failed (fst (transform 1 L meth data expected_size))"
  shows "main E L argv
    = (Exit 1, ReadInput (argv ! 2) # snd (transform 1 L meth data expected_size))"
proof (cases "transform 1 L meth data expected_size")
  case (Pair r t)
  show ?thesis
  proof (cases r)
    case (Inl c)
    with Pair have "c = 1" using transform_exit_code [of 1 L meth data expected_size c]
      by simp
    with Inl Pair assms show ?thesis by (simp add: main_def Let_def)
  next
    case (Inr b)
    with Pair assms(5) have "b = None" by (cases b) (simp_all add: failed_def)
    with Inr Pair assms show ?thesis by (simp add: main_def Let_def)
  qed
qed

lemma main_succeeded:
  assumes "length argv = 5" and "py_int (argv ! 1) = Some meth"
    and "py_int (argv ! 4) = Some expected_size"
    and "read_file E (argv ! 2) = Inr data"
    and "transform 1 L meth data expected_size = (Inr (Some result), t)"
  shows "main E L argv
    = (fst (write_result E (argv ! 3) result),
       ReadInput (argv ! 2) # t @ snd (write_result E (argv ! 3) result))"
  using assms by (simp add: main_def Let_def split: prod.split)

section \<open>No output without a result\<close>

text \<open>
  C8. In a run whose transform fails (the dispatch gives no bytes, whatever the method
  and the cause) the program ends with code 1 right after the events of the transform:
  no event touches the output path, not even the creation of its directory. In a run
  whose transform succeeds, the directory is created and the output file opened only
  after every event of the transform. The lines of the log are events of their own and
  are not counted as output.
\<close>

theorem no_output_on_failure:
  "length argv = 5 \<and> py_int (argv ! 1) = Some meth
     \<and> py_int (argv ! 4) = Some expected_size \<and> read_file E (argv ! 2) = Inr data
   \<longrightarrow> (failed (fst (transform 1 L meth data expected_size))
          \<longrightarrow> main E L argv
                = (Exit 1, ReadInput (argv ! 2) # snd (transform 1 L meth data expected_size))
              \<and> filter touches_output (snd (main E L argv)) = [])
       \<and> (transform 1 L meth data expected_size = (Inr (Some result), t)
          \<longrightarrow> snd (main E L argv)
                = ReadInput (argv ! 2) # t @ snd (write_result E (argv ! 3) result)
              \<and> filter touches_output (ReadInput (argv ! 2) # t) = [])"
proof (intro impI conjI)
  assume a: "length argv = 5 \<and> py_int (argv ! 1) = Some meth
     \<and> py_int (argv ! 4) = Some expected_size \<and> read_file E (argv ! 2) = Inr data"
  {
    assume f: "failed (fst (transform 1 L meth data expected_size))"
    from a f show m: "main E L argv
        = (Exit 1, ReadInput (argv ! 2) # snd (transform 1 L meth data expected_size))"
      by (simp add: main_failed)
    show "filter touches_output (snd (main E L argv)) = []"
      by (simp add: m transform_quiet touches_output_def)
  }
  {
    assume s: "transform 1 L meth data expected_size = (Inr (Some result), t)"
    from a s show "snd (main E L argv)
        = ReadInput (argv ! 2) # t @ snd (write_result E (argv ! 3) result)"
      by (simp add: main_succeeded)
    have "filter touches_output (snd (transform 1 L meth data expected_size)) = []"
      by (rule transform_quiet)
    with s show "filter touches_output (ReadInput (argv ! 2) # t) = []"
      by (simp add: touches_output_def)
  }
qed

theorem no_output_on_failure_witness:
  "main (fixed_environment (Inr hello) None None) no_library
       [''process_data.py'', ''0'', ''in'', ''dir/out'', ''4'']
     = (Exit 1, ReadInput ''in'' # log_error ''Data size mismatch for no processing'')
   \<and> filter touches_output
        (snd (main (fixed_environment (Inr hello) None None) no_library
           [''process_data.py'', ''0'', ''in'', ''dir/out'', ''4''])) = []
   \<and> snd (main (fixed_environment (Inr hello) None None) no_library
           [''process_data.py'', ''0'', ''in'', ''dir/out'', ''5''])
     = [ReadInput ''in'', MakeDirs ''dir'', WriteOutput ''dir/out'' hello]"
proof -
  let ?E = "fixed_environment (Inr hello) None None"
  let ?a = "[''process_data.py'', ''0'', ''in'', ''dir/out'', ''4'']"
  let ?b = "[''process_data.py'', ''0'', ''in'', ''dir/out'', ''5'']"
  have m: "py_int ''0'' = Some 0" "py_int ''4'' = Some 4" "py_int ''5'' = Some 5"
    by (simp_all add: py_int_def strip_def is_space_def digit_val_def)
  have r: "read_file ?E ''in'' = Inr hello" by (simp add: fixed_environment_def)
  have bad: "transform 1 no_library 0 hello 4
      = (Inr None, log_error ''Data size mismatch for no processing'')"
    by (simp add: transform_def process_none_def hello_def)
  have good: "transform 1 no_library 0 hello 5 = (Inr (Some hello), [])"
    by (simp add: transform_def process_none_def hello_def)
  have w: "write_result ?E ''dir/out'' hello
      = (Exit 0, [MakeDirs ''dir'', WriteOutput ''dir/out'' hello])"
    by (simp add: write_result_def dirname_def makedirs_def fixed_environment_def)
  note A = no_output_on_failure
    [where argv = ?a and meth = 0 and expected_size = 4 and E = ?E and data = hello
       and L = no_library]
  note B = no_output_on_failure
    [where argv = ?b and meth = 0 and expected_size = 5 and E = ?E and data = hello
       and L = no_library and result = hello and t = "[]"]
  have preA: "length ?a = 5 \<and> py_int (?a ! 1) = Some 0
      \<and> py_int (?a ! 4) = Some 4 \<and> read_file ?E (?a ! 2) = Inr hello"
    by (simp add: m r)
  have preB: "length ?b = 5 \<and> py_int (?b ! 1) = Some 0
      \<and> py_int (?b ! 4) = Some 5 \<and> read_file ?E (?b ! 2) = Inr hello"
    by (simp add: m r)
  have fl: "failed (fst (transform 1 no_library 0 hello 4))"
    by (simp add: bad failed_def)
  from A preA fl have both: "main ?E no_library ?a
        = (Exit 1, ReadInput (?a ! 2) # snd (transform 1 no_library 0 hello 4))
      \<and> filter touches_output (snd (main ?E no_library ?a)) = []"
    by blast
  from both [THEN conjunct1] have 1: "main ?E no_library ?a
      = (Exit 1, ReadInput ''in'' # log_error ''Data size mismatch for no processing'')"
    by (simp add: bad)
  have 2: "filter touches_output (snd (main ?E no_library ?a)) = []"
    by (rule both [THEN conjunct2])
  from B preB good have "snd (main ?E no_library ?b)
      = ReadInput (?b ! 2) # [] @ snd (write_result ?E (?b ! 3) hello)"
    by blast
  then have 3: "snd (main ?E no_library ?b)
      = [ReadInput ''in'', MakeDirs ''dir'', WriteOutput ''dir/out'' hello]"
    by (simp add: w)
  show ?thesis using 1 2 3 by blast
qed

section \<open>An output path without a directory\<close>

lemma dirname_bare: "CHR ''/'' \<notin> set p \<Longrightarrow> dirname p = []"
proof -
  assume "CHR ''/'' \<notin> set p"
  then have "dropWhile (\<lambda>c. c \<noteq> CHR ''/'') (rev p) = []" by auto
  then show ?thesis by (simp add: dirname_def)
qed

lemma transform_succeeded_no_error:
  "transform v L m d n = (Inr (Some out), t) \<Longrightarrow> filter is_error t = []"
  by (auto simp: transform_def process_none_def process_zlib_def process_lzma_def
      process_fernet_def Let_def log_message_def is_error_def
      split: if_splits sum.splits option.splits)

text \<open>
  C10. When the transform succeeds and the output path is a bare file name (it holds no
  slash, so its directory name is empty), \<^verbatim>\<open>os.makedirs('')\<close> raises outside any \<^verbatim>\<open>try\<close>:
  the run ends with the uncaught \<^verbatim>\<open>FileNotFoundError\<close>; the call of \<^verbatim>\<open>makedirs\<close> is its only
  event that touches the output, so the file is not written, and no ERROR line is
  logged, so the failure to write is not reported.
\<close>

theorem bare_output_name_raises:
  "length argv = 5 \<and> py_int (argv ! 1) = Some meth
     \<and> py_int (argv ! 4) = Some expected_size \<and> read_file E (argv ! 2) = Inr data
     \<and> transform 1 L meth data expected_size = (Inr (Some result), t)
     \<and> CHR ''/'' \<notin> set (argv ! 3)
   \<longrightarrow> dirname (argv ! 3) = []
       \<and> main E L argv = (Uncaught ''FileNotFoundError'', ReadInput (argv ! 2) # t @ [MakeDirs []])
       \<and> filter touches_output (snd (main E L argv)) = [MakeDirs []]
       \<and> filter is_error (snd (main E L argv)) = []"
proof (intro impI)
  assume a: "length argv = 5 \<and> py_int (argv ! 1) = Some meth
     \<and> py_int (argv ! 4) = Some expected_size \<and> read_file E (argv ! 2) = Inr data
     \<and> transform 1 L meth data expected_size = (Inr (Some result), t)
     \<and> CHR ''/'' \<notin> set (argv ! 3)"
  then have d: "dirname (argv ! 3) = []" by (simp add: dirname_bare)
  then have w: "write_result E (argv ! 3) result = (Uncaught ''FileNotFoundError'', [MakeDirs []])"
    by (simp add: write_result_def makedirs_def)
  from a have m: "main E L argv
      = (Uncaught ''FileNotFoundError'', ReadInput (argv ! 2) # t @ [MakeDirs []])"
    by (simp add: main_succeeded w)
  have "filter touches_output (snd (transform 1 L meth data expected_size)) = []"
    by (rule transform_quiet)
  with a have q: "filter touches_output t = []" by simp
  from a have e: "filter is_error t = []"
    using transform_succeeded_no_error [of 1 L meth data expected_size result t] by blast
  have 1: "filter touches_output (snd (main E L argv)) = [MakeDirs []]"
    by (simp add: m q touches_output_def)
  have 2: "filter is_error (snd (main E L argv)) = []"
    by (simp add: m e is_error_def)
  show "dirname (argv ! 3) = []
       \<and> main E L argv = (Uncaught ''FileNotFoundError'', ReadInput (argv ! 2) # t @ [MakeDirs []])
       \<and> filter touches_output (snd (main E L argv)) = [MakeDirs []]
       \<and> filter is_error (snd (main E L argv)) = []"
    using d m 1 2 by blast
qed

theorem bare_output_name_raises_witness:
  "dirname ''out'' = []
   \<and> main (fixed_environment (Inr hello) None None) no_library
        [''process_data.py'', ''0'', ''in'', ''out'', ''5'']
     = (Uncaught ''FileNotFoundError'', [ReadInput ''in'', MakeDirs []])"
proof -
  let ?E = "fixed_environment (Inr hello) None None"
  let ?a = "[''process_data.py'', ''0'', ''in'', ''out'', ''5'']"
  have m: "py_int ''0'' = Some 0" "py_int ''5'' = Some 5"
    by (simp_all add: py_int_def strip_def is_space_def digit_val_def)
  have r: "read_file ?E ''in'' = Inr hello" by (simp add: fixed_environment_def)
  have good: "transform 1 no_library 0 hello 5 = (Inr (Some hello), [])"
    by (simp add: transform_def process_none_def hello_def)
  have pre: "length ?a = 5 \<and> py_int (?a ! 1) = Some 0
      \<and> py_int (?a ! 4) = Some 5 \<and> read_file ?E (?a ! 2) = Inr hello
      \<and> transform 1 no_library 0 hello 5 = (Inr (Some hello), [])
      \<and> CHR ''/'' \<notin> set (?a ! 3)"
    by (simp add: m r good)
  from bare_output_name_raises
    [where argv = ?a and meth = 0 and expected_size = 5 and E = ?E and data = hello
       and L = no_library and result = hello and t = "[]"] pre
  have "dirname (?a ! 3) = []
      \<and> main ?E no_library ?a
          = (Uncaught ''FileNotFoundError'', ReadInput (?a ! 2) # [] @ [MakeDirs []])"
    by blast
  then show ?thesis by simp
qed

section \<open>The expected size on the command line\<close>

text \<open>
  C5. The specification wants an expected size that is no non-negative integer refused
  before the dispatch. The program does not refuse a negative one: the text \<^verbatim>\<open>-5\<close> is
  read as the integer -5, the input is read, the pass-through transform is called with
  it, and the run ends with the size mismatch of that transform.
\<close>

theorem negative_expected_size_counterexample:
  "py_int ''-5'' = Some (- 5)
   \<and> main (fixed_environment (Inr hello) None None) no_library
        [''process_data.py'', ''0'', ''in'', ''dir/out'', ''-5'']
     = (Exit 1, ReadInput ''in'' # log_error ''Data size mismatch for no processing'')"
proof -
  have m: "py_int ''0'' = Some 0" "py_int ''-5'' = Some (- 5)"
    by (simp_all add: py_int_def strip_def is_space_def digit_val_def)
  then show ?thesis
    by (simp add: main_def Let_def fixed_environment_def transform_def process_none_def
        hello_def)
qed

text \<open>
  C5, as the program has it. The program converts the fourth argument with \<^verbatim>\<open>int\<close> and checks nothing
  else. Text that \<^verbatim>\<open>int\<close> refuses ends the run with an uncaught \<^verbatim>\<open>ValueError\<close> before the
  input is read and before any dispatch, with no log entry. A negative integer is
  accepted: the input is read, the transform is dispatched with it, and the run ends with
  exit code 1 after the events of that transform, which cannot succeed.
\<close>

theorem expected_size_parsed_by_int:
  "length argv = 5 \<and> py_int (argv ! 1) = Some meth
   \<longrightarrow> (py_int (argv ! 4) = None \<longrightarrow> main E L argv = (Uncaught ''ValueError'', []))
       \<and> (py_int (argv ! 4) = Some expected_size \<and> expected_size < 0
            \<and> read_file E (argv ! 2) = Inr data
          \<longrightarrow> main E L argv
                = (Exit 1, ReadInput (argv ! 2) # snd (transform 1 L meth data expected_size)))"
proof (intro impI conjI)
  assume a: "length argv = 5 \<and> py_int (argv ! 1) = Some meth"
  {
    assume "py_int (argv ! 4) = None"
    with a show "main E L argv = (Uncaught ''ValueError'', [])"
      by (simp add: main_def Let_def)
  }
  {
    assume b: "py_int (argv ! 4) = Some expected_size \<and> expected_size < 0
        \<and> read_file E (argv ! 2) = Inr data"
    then have "failed (fst (transform 1 L meth data expected_size))"
      by (simp add: transform_negative)
    with a b show "main E L argv
        = (Exit 1, ReadInput (argv ! 2) # snd (transform 1 L meth data expected_size))"
      by (simp add: main_failed)
  }
qed

theorem expected_size_parsed_by_int_witness:
  "py_int ''five'' = None
   \<and> main (fixed_environment (Inr hello) None None) no_library
        [''process_data.py'', ''1'', ''in'', ''dir/out'', ''five'']
     = (Uncaught ''ValueError'', [])
   \<and> py_int ''-5'' = Some (- 5)
   \<and> main (fixed_environment (Inr hello) None None)
        (fixed_library (Inl []) (Inr hi) (Inl []) None (Inl []) (Inl []))
        [''process_data.py'', ''1'', ''in'', ''dir/out'', ''-5'']
     = (Exit 1, ReadInput ''in'' # log_error ''Zlib decompressed size mismatch'')"
proof -
  let ?E = "fixed_environment (Inr hello) None None"
  let ?Z = "fixed_library (Inl []) (Inr hi) (Inl []) None (Inl []) (Inl [])"
  let ?a = "[''process_data.py'', ''1'', ''in'', ''dir/out'', ''five'']"
  let ?b = "[''process_data.py'', ''1'', ''in'', ''dir/out'', ''-5'']"
  have m: "py_int ''1'' = Some 1" "py_int ''-5'' = Some (- 5)" "py_int ''five'' = None"
    by (simp_all add: py_int_def strip_def is_space_def digit_val_def)
  have r: "read_file ?E ''in'' = Inr hello" by (simp add: fixed_environment_def)
  have t: "transform 1 ?Z 1 hello (- 5)
      = (Inr None, log_error ''Zlib decompressed size mismatch'')"
    by (simp add: transform_def process_zlib_def fixed_library_def hi_def)
  have preA: "length ?a = 5 \<and> py_int (?a ! 1) = Some 1" by (simp add: m)
  have preB: "length ?b = 5 \<and> py_int (?b ! 1) = Some 1" by (simp add: m)
  have noneA: "py_int (?a ! 4) = None" by (simp add: m)
  have negB: "py_int (?b ! 4) = Some (- 5) \<and> (- 5 :: int) < 0
      \<and> read_file ?E (?b ! 2) = Inr hello"
    by (simp add: m r)
  from expected_size_parsed_by_int
    [where argv = ?a and meth = 1 and E = ?E and L = no_library] preA noneA
  have 1: "main ?E no_library ?a = (Uncaught ''ValueError'', [])" by blast
  from expected_size_parsed_by_int
    [where argv = ?b and meth = 1 and E = ?E and L = ?Z and expected_size = "- 5"
       and data = hello] preB negB
  have "main ?E ?Z ?b = (Exit 1, ReadInput (?b ! 2) # snd (transform 1 ?Z 1 hello (- 5)))"
    by blast
  then have 2: "main ?E ?Z ?b
      = (Exit 1, ReadInput ''in'' # log_error ''Zlib decompressed size mismatch'')"
    by (simp add: t)
  show ?thesis using m 1 2 by blast
qed

end
